theory Spec2Isabelle
  imports Main "HOL-Library.AList" "HOL-Library.List_Lexorder" "HOL-Library.Multiset"
begin

section \<open>Pull-request entity (class PullReqState of homu/main.py)\<close>

text \<open>
  Python strings are modelled as \<^typ>\<open>string\<close>; a character stands for a code point
  below 256.  Python integers are \<^typ>\<open>int\<close>.  The attribute \<open>mergeable\<close> is
  \<open>None\<close>, \<open>True\<close> or \<open>False\<close>, hence a \<^typ>\<open>bool option\<close>.  The dictionary
  \<open>build_res\<close> keeps insertion order, so it is an association list from the builder name
  to the pair of \<open>res\<close> and \<open>url\<close>.  The attribute \<open>try_\<close> is the field \<open>try_mode\<close>.
\<close>

type_synonym build_info = "bool option \<times> string"

record PullReqState =
  num :: int
  priority :: int
  rollup :: bool
  title :: string
  body :: string
  head_ref :: string
  base_ref :: string
  assignee :: string
  head_sha :: string
  approved_by :: string
  status :: string
  merge_sha :: string
  build_res :: "(string \<times> build_info) list"
  try_mode :: bool
  mergeable :: "bool option"
  repo_label :: string
  owner :: string
  name :: string

text \<open>\<open>STATUS_TO_PRIORITY.get(s, -1)\<close>.\<close>

definition STATUS_TO_PRIORITY :: "(string \<times> int) list" where
  "STATUS_TO_PRIORITY =
     [(''success'', 0), (''pending'', 1), (''approved'', 2), ('''', 3), (''error'', 4),
      (''failure'', 5)]"

definition status_to_priority :: "string \<Rightarrow> int" where
  "status_to_priority s = (case map_of STATUS_TO_PRIORITY s of Some p \<Rightarrow> p | None \<Rightarrow> - 1)"

text \<open>
  \<open>get_status\<close>: \<open>'approved' if self.status == '' and self.approved_by and
  self.mergeable is not False else self.status\<close>.
\<close>

definition get_status :: "PullReqState \<Rightarrow> string" where
  "get_status s =
     (if status s = '''' \<and> approved_by s \<noteq> '''' \<and> mergeable s \<noteq> Some False
      then ''approved'' else status s)"

text \<open>\<open>sort_key\<close> of the source; the name is taken by a constant of the list library.\<close>

definition sort_key_pr :: "PullReqState \<Rightarrow> int list" where
  "sort_key_pr s =
     [status_to_priority (get_status s),
      (if mergeable s = Some False then 1 else 0),
      (if approved_by s \<noteq> '''' then 0 else 1),
      (if rollup s then 1 else 0),
      - priority s,
      num s]"

text \<open>
  \<open>__lt__\<close> compares the two keys as Python lists, that is lexicographically; this is
  the order of the list library (List_Lexorder).
\<close>

definition lt :: "PullReqState \<Rightarrow> PullReqState \<Rightarrow> bool" where
  "lt a b = (sort_key_pr a < sort_key_pr b)"

text \<open>
  \<open>sorted(states[repo_label].values())\<close> is a stable sort that only calls \<open>__lt__\<close>.
  It is modelled by stable insertion from the right: an element goes after the elements
  strictly below it and before everything else.
\<close>

fun insort_lt :: "PullReqState \<Rightarrow> PullReqState list \<Rightarrow> PullReqState list" where
  "insort_lt x [] = [x]"
| "insort_lt x (y # ys) = (if lt y x then y # insort_lt x ys else x # y # ys)"

definition sorted_states :: "PullReqState list \<Rightarrow> PullReqState list" where
  "sorted_states xs = foldr insort_lt xs []"

section \<open>Strings\<close>

text \<open>\<open>word.startswith(p)\<close> and \<open>sub in s\<close>.\<close>

definition startswith :: "string \<Rightarrow> string \<Rightarrow> bool" where
  "startswith s p = (take (length p) s = p)"

fun contains :: "string \<Rightarrow> string \<Rightarrow> bool" where
  "contains sub [] = (sub = [])"
| "contains sub (c # cs) = (startswith (c # cs) sub \<or> contains sub cs)"

text \<open>
  White space as \<open>str.isspace\<close>, \<open>str.strip\<close> and the pattern \<open>\S\<close> see it, for code
  points below 256: 9 to 13, 28 to 32, 133 and 160.
\<close>

definition is_space :: "char \<Rightarrow> bool" where
  "is_space c =
     (let n = (of_char c :: nat)
      in (9 \<le> n \<and> n \<le> 13) \<or> (28 \<le> n \<and> n \<le> 32) \<or> n = 133 \<or> n = 160)"

definition strip :: "string \<Rightarrow> string" where
  "strip s = rev (dropWhile is_space (rev (dropWhile is_space s)))"

text \<open>
  \<open>str.splitlines()\<close>: the line boundaries below 256 are 10, 11, 12, 13 (with 13 10 taken
  as one), 28, 29, 30 and 133; a boundary ends a line even when the line is empty, and
  the text after the last boundary is a line only when it is not empty.
\<close>

definition is_linebreak :: "char \<Rightarrow> bool" where
  "is_linebreak c =
     (let n = (of_char c :: nat)
      in (10 \<le> n \<and> n \<le> 13) \<or> (28 \<le> n \<and> n \<le> 30) \<or> n = 133)"

fun splitlines_from :: "string \<Rightarrow> string \<Rightarrow> string list" where
  "splitlines_from cur [] = (if cur = [] then [] else [rev cur])"
| "splitlines_from cur [c] =
     (if is_linebreak c then [rev cur] else splitlines_from (c # cur) [])"
| "splitlines_from cur (c # d # cs) =
     (if c = CHR 0x0D \<and> d = CHR 0x0A then rev cur # splitlines_from [] cs
      else if is_linebreak c then rev cur # splitlines_from [] (d # cs)
      else splitlines_from (c # cur) (d # cs))"

definition splitlines :: "string \<Rightarrow> string list" where
  "splitlines s = splitlines_from [] s"

text \<open>\<open>re.findall(r'\S+', x)\<close>: the maximal runs of characters that are not white space.\<close>

fun findall_nonspace_from :: "string \<Rightarrow> string \<Rightarrow> string list" where
  "findall_nonspace_from cur [] = (if cur = [] then [] else [rev cur])"
| "findall_nonspace_from cur (c # cs) =
     (if is_space c
      then (if cur = [] then findall_nonspace_from [] cs
            else rev cur # findall_nonspace_from [] cs)
      else findall_nonspace_from (c # cur) cs)"

definition findall_nonspace :: "string \<Rightarrow> string list" where
  "findall_nonspace x = findall_nonspace_from [] x"

text \<open>
  The first occurrence of a pattern in a text, with what stands before and after it;
  used for \<open>re.search\<close> with the pattern \<open>(?s)<div class="error">(.*?)</div>\<close>, whose
  group is the text between the first opening tag and the first closing tag after it.
\<close>

fun find_sub :: "string \<Rightarrow> string \<Rightarrow> string \<Rightarrow> (string \<times> string) option" where
  "find_sub pat pre [] = (if pat = [] then Some (rev pre, []) else None)"
| "find_sub pat pre (c # cs) =
     (if startswith (c # cs) pat then Some (rev pre, drop (length pat) (c # cs))
      else find_sub pat (c # pre) cs)"

definition search_error_div :: "string \<Rightarrow> string option" where
  "search_error_div text =
     (case find_sub (''<div class='' @ [CHR 0x22] @ ''error'' @ [CHR 0x22] @ ''>'') [] text of
        None \<Rightarrow> None
      | Some (_, rest) \<Rightarrow>
          (case find_sub ''</div>'' [] rest of None \<Rightarrow> None | Some (mid, _) \<Rightarrow> Some mid))"

text \<open>Decimal text of an integer, as \<open>'{}'.format(n)\<close> gives it.\<close>

definition digit_char :: "nat \<Rightarrow> char" where
  "digit_char d = char_of (48 + d)"

fun str_of_nat :: "nat \<Rightarrow> string" where
  "str_of_nat n =
     (if n < 10 then [digit_char n] else str_of_nat (n div 10) @ [digit_char (n mod 10)])"

definition str_of_int :: "int \<Rightarrow> string" where
  "str_of_int i = (if i < 0 then ''-'' @ str_of_nat (nat (- i)) else str_of_nat (nat i))"

text \<open>
  \<open>int(s)\<close> on a string, \<open>None\<close> standing for \<open>ValueError\<close>.  The white space that
  \<open>int\<close> drops at both ends is 9 to 13 and 32 and, among the code points below 256
  that are not ASCII, 133 and 160; the separators 28 to 31 are not dropped.  An optional
  sign follows, then decimal digits, groups of digits being allowed a single underscore
  between them.  A text of more than 4300 digits is refused (the limit of the conversion,
  in which the sign and the underscores do not count).
\<close>

definition is_digit :: "char \<Rightarrow> bool" where
  "is_digit c = (let n = (of_char c :: nat) in 48 \<le> n \<and> n \<le> 57)"

definition is_int_space :: "char \<Rightarrow> bool" where
  "is_int_space c =
     (let n = (of_char c :: nat) in (9 \<le> n \<and> n \<le> 13) \<or> n = 32 \<or> n = 133 \<or> n = 160)"

fun digits_value :: "bool \<Rightarrow> nat \<Rightarrow> string \<Rightarrow> nat option" where
  "digits_value after_digit acc [] = (if after_digit then Some acc else None)"
| "digits_value after_digit acc (c # cs) =
     (if is_digit c then digits_value True (10 * acc + (of_char c - 48)) cs
      else if c = CHR ''_'' \<and> after_digit \<and> cs \<noteq> [] \<and> is_digit (hd cs)
      then digits_value False acc cs
      else None)"

definition py_int :: "string \<Rightarrow> int option" where
  "py_int s =
     (case rev (dropWhile is_int_space (rev (dropWhile is_int_space s))) of
        [] \<Rightarrow> None
      | c # cs \<Rightarrow>
          if length (filter is_digit (c # cs)) > 4300 then None
          else if c = CHR ''-'' then map_option (\<lambda>n. - int n) (digits_value False 0 cs)
          else if c = CHR ''+'' then map_option int (digits_value False 0 cs)
          else map_option int (digits_value False 0 (c # cs)))"

text \<open>
  \<open>sha_cmp\<close> and \<open>sha_or_blank\<close>.  The pattern \<open>^[0-9a-f]+$\<close> is matched with
  \<open>re.match\<close>, where \<open>$\<close> also matches before one final line feed.
\<close>

definition sha_cmp :: "string \<Rightarrow> string \<Rightarrow> bool" where
  "sha_cmp short full = (length short \<ge> 4 \<and> short = take (length short) full)"

definition is_hex :: "char \<Rightarrow> bool" where
  "is_hex c = (let n = (of_char c :: nat) in (48 \<le> n \<and> n \<le> 57) \<or> (97 \<le> n \<and> n \<le> 102))"

definition all_hex :: "string \<Rightarrow> bool" where
  "all_hex s = (s \<noteq> [] \<and> list_all is_hex s)"

definition sha_or_blank :: "string \<Rightarrow> string" where
  "sha_or_blank sha =
     (if all_hex sha \<or> (sha \<noteq> [] \<and> last sha = CHR 0x0A \<and> all_hex (butlast sha))
      then sha else '''')"

section \<open>The store, the outside world and the configuration\<close>

text \<open>
  Modelled from the spec: the table declarations of \<open>schema.sql\<close>, which the source
  reads but which is not part of it.  The persisted schema of the specification gives the
  columns and the keys: \<open>pull\<close> is keyed by \<open>(repo, num)\<close>, \<open>build_res\<close> by
  \<open>(repo, num, builder)\<close> and \<open>mergeable\<close> by \<open>(repo, num)\<close>.  A table is the list of its
  rows.
\<close>

record pull_row =
  p_repo :: string
  p_num :: int
  p_status :: string
  p_merge_sha :: string
  p_title :: string
  p_body :: string
  p_head_sha :: string
  p_head_ref :: string
  p_base_ref :: string
  p_assignee :: string
  p_approved_by :: string
  p_priority :: int
  p_try :: bool
  p_rollup :: bool

record build_res_row =
  b_repo :: string
  b_num :: int
  b_builder :: string
  b_res :: "bool option"
  b_url :: string
  b_merge_sha :: string

record mergeable_row =
  m_repo :: string
  m_num :: int
  m_mergeable :: bool

text \<open>
  What the program does to its collaborators, in the order of the calls: comments created
  on the issue of a pull request (label of the repository, number, text), the merge
  request (branch, head, message), the requests of a session with the CI, and the lines
  given to the logger.  The calls are taken to succeed, the merge request apart, whose
  outcome is an answer of the platform below.  The cached handles of the repository and
  of the issue (\<open>get_repo\<close>, \<open>issue\<close>) and the connection pool of \<open>database.py\<close> carry
  no state of their own here.

  Modelled from the spec: the helpers \<open>github_create_status\<close> and \<open>github_set_ref\<close> of
  the module \<open>utils\<close>, which the source calls but which is not part of it.  After the
  external interface of the specification, the first creates a status check (state,
  description, context) on a commit and the second force-updates a ref to a commit; a
  call is recorded as the event \<open>CreateStatus\<close> (commit, state, description, context)
  or \<open>SetRef\<close> (ref, commit, force).
\<close>

datatype event =
    Comment string int string
  | CreateStatus string string string string
  | SetRef string string bool
  | MergeRequest string string string
  | BuildbotLogin string string string
  | BuildbotStop string "string list" string
  | BuildbotLogout string
  | LogInfo string

text \<open>
  The mutable world outside the entity: the three tables of the singleton \<open>Database\<close>,
  the events so far and the queue of the mergeability prober (an entry is the identity of
  the pull request and the optional cause, a title and a commit id).
\<close>

record world =
  pull_tbl :: "pull_row list"
  build_res_tbl :: "build_res_row list"
  mergeable_tbl :: "mergeable_row list"
  events :: "event list"
  mergeable_que :: "((string \<times> int) \<times> (string \<times> string) option) list"

text \<open>
  The answers of the collaborators, read by the dispatcher and the parser: the head commit
  the platform reports for the pull request, the commit of the base ref, title and body
  of the issue, the outcome of the merge request (a commit, nothing, or a
  \<open>GitHubError\<close> with its code), the text of the CI's reply to the stop request, and the
  clock in seconds.
\<close>

datatype merge_outcome = MergeCommit string | MergeNone | MergeError int

record platform =
  pr_head_sha :: string
  base_sha :: string
  issue_title :: string
  issue_body :: string
  merge_result :: merge_outcome
  stop_reply :: string
  now :: int

text \<open>
  The configuration of one repository.  A CI block is present or absent; the \<open>buildbot\<close>
  block carries its five options, the \<open>testrunners\<close> block may lack \<open>builders\<close>, and
  \<open>branch\<close> is the table of renamed branches (empty when absent).
\<close>

record buildbot_cfg =
  bb_url :: string
  bb_username :: string
  bb_password :: string
  bb_builders :: "string list"
  bb_try_builders :: "string list"

record repo_cfg =
  cfg_owner :: string
  cfg_name :: string
  reviewers :: "string list"
  branch :: "(string \<times> string) list"
  buildbot :: "buildbot_cfg option"
  travis :: bool
  status_ci :: bool
  testrunners :: "string list option option"

datatype error =
    AssertionError
  | KeyError string
  | RuntimeError string
  | GitHubError int
  | Exception string

section \<open>Methods of the entity\<close>

text \<open>
  The constructor: \<open>head_advanced('', use_db=False)\<close> resets the build fields, the
  arguments are stored, and the remaining attributes keep the defaults of the class.
\<close>

definition new_PullReqState ::
    "int \<Rightarrow> string \<Rightarrow> string \<Rightarrow> string \<Rightarrow> string \<Rightarrow> string \<Rightarrow> PullReqState" where
  "new_PullReqState n hsha st label own nm =
     \<lparr>num = n, priority = 0, rollup = False, title = '''', body = '''', head_ref = '''',
      base_ref = '''', assignee = '''', head_sha = hsha, approved_by = '''', status = st,
      merge_sha = '''', build_res = [], try_mode = False, mergeable = None,
      repo_label = label, owner = own, name = nm\<rparr>"

definition add_comment :: "PullReqState \<Rightarrow> string \<Rightarrow> world \<Rightarrow> world" where
  "add_comment s text w = w\<lparr>events := events w @ [Comment (repo_label s) (num s) text]\<rparr>"

definition is_pull :: "PullReqState \<Rightarrow> pull_row \<Rightarrow> bool" where
  "is_pull s r = (p_repo r = repo_label s \<and> p_num r = num s)"

text \<open>
  \<open>set_status\<close>: the attribute, then \<open>UPDATE pull SET status\<close> on the rows of this pull
  request and, unless \<open>try_\<close> is set, \<open>UPDATE pull SET merge_sha\<close> on the same rows.
\<close>

definition set_status :: "PullReqState \<Rightarrow> string \<Rightarrow> world \<Rightarrow> PullReqState \<times> world" where
  "set_status s new_status w =
     (let s' = s\<lparr>status := new_status\<rparr>;
          t1 = map (\<lambda>r. if is_pull s' r then r\<lparr>p_status := status s'\<rparr> else r) (pull_tbl w);
          t2 = (if \<not> try_mode s'
                then map (\<lambda>r. if is_pull s' r then r\<lparr>p_merge_sha := merge_sha s'\<rparr> else r) t1
                else t1)
      in (s', w\<lparr>pull_tbl := t2\<rparr>))"


text \<open>
  \<open>init_build_res(builders, use_db=True)\<close>: the dictionary comprehension assigns the
  fresh entry to every builder in turn.
\<close>

definition init_build_res ::
    "PullReqState \<Rightarrow> string list \<Rightarrow> bool \<Rightarrow> world \<Rightarrow> PullReqState \<times> world" where
  "init_build_res s builders use_db w =
     (let s' = s\<lparr>build_res := foldl (\<lambda>d x. AList.update x (None, '''') d) [] builders\<rparr>
      in (s', if use_db
              then w\<lparr>build_res_tbl :=
                     filter (\<lambda>r. \<not> (b_repo r = repo_label s' \<and> b_num r = num s'))
                       (build_res_tbl w)\<rparr>
              else w))"

text \<open>
  \<open>set_build_res\<close>: the result says whether the call raised; the entity and the world
  are returned as the call leaves them in either case.
\<close>

definition set_build_res ::
    "PullReqState \<Rightarrow> string \<Rightarrow> bool option \<Rightarrow> string \<Rightarrow> world
      \<Rightarrow> error option \<times> PullReqState \<times> world" where
  "set_build_res s builder res url w =
     (if builder \<notin> fst ` set (build_res s)
      then (Some (Exception (''Invalid builder: '' @ builder)), s, w)
      else
        (let s' = s\<lparr>build_res := AList.update builder (res, url) (build_res s)\<rparr>
         in (None, s',
             w\<lparr>build_res_tbl :=
                 filter (\<lambda>r. \<not> (b_repo r = repo_label s' \<and> b_num r = num s'
                                  \<and> b_builder r = builder)) (build_res_tbl w)
                 @ [\<lparr>b_repo = repo_label s', b_num = num s', b_builder = builder,
                     b_res = res, b_url = url, b_merge_sha = merge_sha s'\<rparr>]\<rparr>)))"

text \<open>\<open>save\<close>: \<open>REPLACE INTO pull\<close> with every column taken from the entity.\<close>

definition row_of :: "PullReqState \<Rightarrow> pull_row" where
  "row_of s =
     \<lparr>p_repo = repo_label s, p_num = num s, p_status = status s, p_merge_sha = merge_sha s,
      p_title = title s, p_body = body s, p_head_sha = head_sha s, p_head_ref = head_ref s,
      p_base_ref = base_ref s, p_assignee = assignee s, p_approved_by = approved_by s,
      p_priority = priority s, p_try = try_mode s, p_rollup = rollup s\<rparr>"

definition save :: "PullReqState \<Rightarrow> world \<Rightarrow> world" where
  "save s w = w\<lparr>pull_tbl := filter (\<lambda>r. \<not> is_pull s r) (pull_tbl w) @ [row_of s]\<rparr>"

text \<open>\<open>refresh\<close>: title and body are read again from the issue.\<close>

definition refresh :: "PullReqState \<Rightarrow> platform \<Rightarrow> PullReqState" where
  "refresh s pf = s\<lparr>title := issue_title pf, body := issue_body pf\<rparr>"

section \<open>The command parser\<close>

text \<open>
  The words of a comment: the lines that contain the mention of the bot, each cut into its
  runs of characters that are not white space.
\<close>

definition mention_words :: "string \<Rightarrow> string \<Rightarrow> string list" where
  "mention_words my_username body_text =
     concat (map findall_nonspace
       (filter (contains (''@'' @ my_username)) (splitlines body_text)))"

text \<open>
  The variables of the loop: the list \<open>words\<close>, which the loop blanks as it goes, the
  entity, the world and \<open>state_changed\<close>.
\<close>

record parse_state =
  ps_words :: "string list"
  ps_state :: PullReqState
  ps_world :: world
  ps_changed :: bool

text \<open>The branch of \<open>r+\<close> and \<open>r=\<close>.\<close>

definition approve ::
    "string \<Rightarrow> string \<Rightarrow> bool \<Rightarrow> string \<Rightarrow> string list \<Rightarrow> nat \<Rightarrow> string
      \<Rightarrow> PullReqState \<Rightarrow> world \<Rightarrow> PullReqState \<times> world" where
  "approve username my_username realtime sha words i word s w =
     (let cur_sha = (if sha = '''' \<and> i + 1 < length words
                     then sha_or_blank (words ! (i + 1)) else sha);
          approver = (if startswith word ''r='' then drop 2 word else username)
      in if sha_cmp cur_sha (head_sha s)
         then (let s' = s\<lparr>approved_by := approver\<rparr> in (s', save s' w))
         else if realtime \<and> username \<noteq> my_username
         then (if cur_sha \<noteq> ''''
               then (s, add_comment s
                      ('':question: `'' @ cur_sha @ ''` is not a valid commit SHA.''
                       @ '' Please try again with `'' @ take 7 (head_sha s) @ ''`.'') w)
               else (s, add_comment s
                      ('':pushpin: Commit '' @ take 7 (head_sha s)
                       @ '' has been approved by `'' @ approver @ ''`''
                       @ [CHR 0x0A, CHR 0x0A]
                       @ ''<!-- @'' @ my_username @ '' r='' @ approver @ '' '' @ head_sha s
                       @ '' -->'') w))
         else (s, w))"

text \<open>
  The branch of \<open>force\<close>: a session with the CI (login, the stop request, logout), then
  the reading of the reply.  Without a \<open>buildbot\<close> block the first lookup raises.
\<close>

definition force_stop ::
    "repo_cfg \<Rightarrow> PullReqState \<Rightarrow> platform \<Rightarrow> world \<Rightarrow> error option \<times> world" where
  "force_stop cfg s pf w =
     (case buildbot cfg of
        None \<Rightarrow> (Some (KeyError ''buildbot''), w)
      | Some bb \<Rightarrow>
          (let w1 = w\<lparr>events := events w @
                      [BuildbotLogin (bb_url bb @ ''/login'') (bb_username bb) (bb_password bb),
                       BuildbotStop (bb_url bb @ ''/builders/_selected/stopselected'')
                         (bb_builders bb)
                         (''Interrupted by Homu ('' @ str_of_int (now pf) @ '')''),
                       BuildbotLogout (bb_url bb @ ''/logout'')]\<rparr>;
               err = (if contains ''authzfail'' (stop_reply pf) then ''Authorization failed''
                      else (case search_error_div (stop_reply pf) of
                              Some g \<Rightarrow> (if strip g = '''' then ''Unknown error'' else strip g)
                            | None \<Rightarrow> ''''))
           in (None, if err \<noteq> ''''
                     then add_comment s ('':bomb: Buildbot returned an error: `'' @ err @ ''`'') w1
                     else w1)))"

text \<open>
  One turn of the loop for the pair \<open>(i, word)\<close>.  A recognised word sets
  \<open>state_changed\<close> and blanks \<open>words[i]\<close>; an exception leaves the loop before that.
\<close>

definition parse_word ::
    "string \<Rightarrow> repo_cfg \<Rightarrow> string \<Rightarrow> bool \<Rightarrow> string \<Rightarrow> platform \<Rightarrow> nat \<times> string
      \<Rightarrow> parse_state \<Rightarrow> error option \<times> parse_state" where
  "parse_word username cfg my_username realtime sha pf iw ps =
     (let i = fst iw; word = snd iw; s = ps_state ps; w = ps_world ps;
          found = (\<lambda>s' w'. (None, ps\<lparr>ps_words := (ps_words ps)[i := ''''], ps_state := s',
                                       ps_world := w', ps_changed := True\<rparr>))
      in if word = ''r+'' \<or> startswith word ''r=''
         then (case approve username my_username realtime sha (ps_words ps) i word s w of
                 (s', w') \<Rightarrow> found s' w')
         else if word = ''r-''
         then (let s' = s\<lparr>approved_by := ''''\<rparr> in found s' (save s' w))
         else if startswith word ''p=''
         then (let s' = (case py_int (drop 2 word) of Some n \<Rightarrow> s\<lparr>priority := n\<rparr> | None \<Rightarrow> s)
               in found s' (save s' w))
         else if word = ''retry'' \<and> realtime
         then (case set_status s '''' w of (s', w') \<Rightarrow> found s' w')
         else if (word = ''try'' \<or> word = ''try-'') \<and> realtime
         then (case init_build_res (s\<lparr>try_mode := (word = ''try''), merge_sha := ''''\<rparr>) [] True w of
                 (s', w') \<Rightarrow> found s' (save s' w'))
         else if word = ''rollup'' \<or> word = ''rollup-''
         then (let s' = s\<lparr>rollup := (word = ''rollup'')\<rparr> in found s' (save s' w))
         else if word = ''force'' \<and> realtime
         then (case force_stop cfg s pf w of
                 (Some e, w') \<Rightarrow> (Some e, ps\<lparr>ps_world := w'\<rparr>)
               | (None, w') \<Rightarrow> found s w')
         else if word = ''clean'' \<and> realtime
         then (case init_build_res (s\<lparr>merge_sha := ''''\<rparr>) [] True w of
                 (s', w') \<Rightarrow> found s' (save s' w'))
         else (None, ps))"

text \<open>
  The loop runs over \<open>reversed(list(enumerate(words)))\<close>, a copy taken before the first
  turn.
\<close>

fun parse_loop ::
    "string \<Rightarrow> repo_cfg \<Rightarrow> string \<Rightarrow> bool \<Rightarrow> string \<Rightarrow> platform \<Rightarrow> (nat \<times> string) list
      \<Rightarrow> parse_state \<Rightarrow> error option \<times> parse_state" where
  "parse_loop username cfg my_username realtime sha pf [] ps = (None, ps)"
| "parse_loop username cfg my_username realtime sha pf (iw # rest) ps =
     (case parse_word username cfg my_username realtime sha pf iw ps of
        (Some e, ps') \<Rightarrow> (Some e, ps')
      | (None, ps') \<Rightarrow> parse_loop username cfg my_username realtime sha pf rest ps')"

text \<open>
  \<open>parse_commands\<close>.  The result is the returned flag or the exception, with the entity
  and the world as the call leaves them.
\<close>

definition parse_commands ::
    "string \<Rightarrow> string \<Rightarrow> repo_cfg \<Rightarrow> PullReqState \<Rightarrow> string \<Rightarrow> bool \<Rightarrow> string \<Rightarrow> platform
      \<Rightarrow> world \<Rightarrow> (error + bool) \<times> PullReqState \<times> world" where
  "parse_commands body_text username cfg state my_username realtime sha pf w =
     (if username \<notin> set (reviewers cfg) \<and> username \<noteq> my_username
      then (Inr False, state, w)
      else
        (let words = mention_words my_username body_text;
             ps0 = \<lparr>ps_words = words, ps_state = state, ps_world = w, ps_changed = False\<rparr>
         in case parse_loop username cfg my_username realtime sha pf
                   (rev (enumerate 0 words)) ps0 of
              (Some e, ps) \<Rightarrow> (Inl e, ps_state ps, ps_world ps)
            | (None, ps) \<Rightarrow> (Inr (ps_changed ps), ps_state ps, ps_world ps)))"

section \<open>The build dispatcher\<close>

text \<open>
  \<open>create_merge\<close>: the scratch branch is moved to the base commit, title and body are
  read again, and the platform is asked to merge.  A \<open>GitHubError\<close> with code 409 is
  handled here and gives \<open>None\<close>; any other code is raised again.
\<close>

definition create_merge ::
    "PullReqState \<Rightarrow> string \<Rightarrow> platform \<Rightarrow> world
      \<Rightarrow> (error + string option) \<times> PullReqState \<times> world" where
  "create_merge s0 branch_name pf w0 =
     (let w1 = w0\<lparr>events := events w0 @ [SetRef (''heads/'' @ branch_name) (base_sha pf) True]\<rparr>;
          s1 = refresh s0 pf;
          merge_msg = ''Auto merge of #'' @ str_of_int (num s1) @ '' - '' @ head_ref s1
            @ '', r='' @ (if try_mode s1 then ''<try>'' else approved_by s1)
            @ [CHR 0x0A, CHR 0x0A] @ title s1 @ [CHR 0x0A, CHR 0x0A] @ body s1;
          w2 = w1\<lparr>events := events w1 @ [MergeRequest branch_name (head_sha s1) merge_msg]\<rparr>
      in case merge_result pf of
           MergeError code \<Rightarrow>
             (if code \<noteq> 409 then (Inl (GitHubError code), s1, w2)
              else
                (case set_status s1 ''error'' w2 of
                   (s2, w3) \<Rightarrow>
                     (let desc = ''Merge conflict'';
                          w4 = w3\<lparr>events := events w3 @
                                 [CreateStatus (head_sha s2) ''error'' desc ''homu'']\<rparr>
                      in (Inr None, s2, add_comment s2 ('':lock: '' @ desc) w4))))
         | MergeNone \<Rightarrow> (Inr None, s1, w2)
         | MergeCommit c \<Rightarrow> (Inr (Some c), s1, w2))"

text \<open>
  The choice of branch and builders in \<open>start_build\<close>, by the first CI block that the
  configuration has.
\<close>

definition renamed_branch :: "repo_cfg \<Rightarrow> string \<Rightarrow> string" where
  "renamed_branch cfg b = (case map_of (branch cfg) b of Some b' \<Rightarrow> b' | None \<Rightarrow> b)"

definition branch_and_builders ::
    "repo_cfg \<Rightarrow> PullReqState \<Rightarrow> error + string \<times> string list" where
  "branch_and_builders cfg s =
     (case buildbot cfg of
        Some bb \<Rightarrow>
          Inr (renamed_branch cfg (if try_mode s then ''try'' else ''auto''),
               if try_mode s then bb_try_builders bb else bb_builders bb)
      | None \<Rightarrow>
          if travis cfg then Inr (renamed_branch cfg ''auto'', [''travis''])
          else if status_ci cfg then Inr (renamed_branch cfg ''auto'', [''status''])
          else (case testrunners cfg of
                  Some bs \<Rightarrow>
                    Inr (''merge_bot_'' @ base_ref s, (case bs of Some l \<Rightarrow> l | None \<Rightarrow> []))
                | None \<Rightarrow> Inl (RuntimeError ''Invalid configuration'')))"

text \<open>
  \<open>start_build\<close>.  The cell \<open>buildbot_slots[0]\<close> is passed in and handed back; the
  result is the returned flag or the exception.
\<close>

definition start_build ::
    "PullReqState \<Rightarrow> (string \<times> repo_cfg) list \<Rightarrow> string \<Rightarrow> platform \<Rightarrow> world
      \<Rightarrow> (error + bool) \<times> PullReqState \<times> string \<times> world" where
  "start_build s0 repo_cfgs slot pf w0 =
     (if slot \<noteq> '''' then (Inr True, s0, slot, w0)
      else if head_sha s0 \<noteq> pr_head_sha pf then (Inl AssertionError, s0, slot, w0)
      else
        (case map_of repo_cfgs (repo_label s0) of
           None \<Rightarrow> (Inl (KeyError (repo_label s0)), s0, slot, w0)
         | Some cfg \<Rightarrow>
             (case branch_and_builders cfg s0 of
                Inl e \<Rightarrow> (Inl e, s0, slot, w0)
              | Inr (branch_name, builders) \<Rightarrow>
                  (case create_merge s0 branch_name pf w0 of
                     (Inl e, s1, w1) \<Rightarrow> (Inl e, s1, slot, w1)
                   | (Inr None, s1, w1) \<Rightarrow> (Inr False, s1, slot, w1)
                   | (Inr (Some merge_commit), s1, w1) \<Rightarrow>
                       (case init_build_res s1 builders True w1 of
                          (s2, w2) \<Rightarrow>
                            (let s3 = s2\<lparr>merge_sha := merge_commit\<rparr>;
                                 w3 = save s3 w2;
                                 slot' = (if buildbot cfg \<noteq> None then merge_sha s3 else slot);
                                 w4 = w3\<lparr>events := events w3 @
                                        [LogInfo (''Starting build of '' @ owner s3 @ ''/''
                                           @ name s3 @ ''#'' @ str_of_int (num s3) @ '' on ''
                                           @ branch_name @ '': '' @ merge_sha s3)]\<rparr>
                             in case set_status s3 ''pending'' w4 of
                                  (s4, w5) \<Rightarrow>
                                    (let desc = (if try_mode s4 then ''Trying'' else ''Testing'')
                                           @ '' commit '' @ take 7 (head_sha s4)
                                           @ '' with merge '' @ take 7 (merge_sha s4) @ ''...'';
                                         checks =
                                           (if testrunners cfg \<noteq> None
                                            then map (\<lambda>b. CreateStatus (head_sha s4) ''pending''
                                                             desc (''merge-test/'' @ b)) builders
                                            else [CreateStatus (head_sha s4) ''pending'' desc
                                                    ''homu'']);
                                         w6 = w5\<lparr>events := events w5 @ checks\<rparr>
                                     in (Inr True, s4, slot',
                                         add_comment s4 ('':hourglass: '' @ desc) w6))))))))"

section \<open>Recovery of the pull requests on startup\<close>





section \<open>Example values and auxiliary notions\<close>

text \<open>
  A repository \<open>repo\<close> with one reviewer and a \<open>travis\<close> block, an empty world, a platform
  whose merge request answers 409, and a pull request number 7 at head
  \<open>deadbeefcafebabe\<close>.
\<close>

definition ex_cfg :: repo_cfg where
  "ex_cfg = \<lparr>cfg_owner = ''o'', cfg_name = ''n'', reviewers = [''carol''], branch = [],
             buildbot = None, travis = True, status_ci = False, testrunners = None\<rparr>"

definition ex_world :: world where
  "ex_world = \<lparr>pull_tbl = [], build_res_tbl = [], mergeable_tbl = [], events = [],
               mergeable_que = []\<rparr>"

definition ex_platform :: platform where
  "ex_platform = \<lparr>pr_head_sha = ''deadbeefcafebabe'', base_sha = ''0123456789'',
                  issue_title = ''t'', issue_body = ''b'', merge_result = MergeError 409,
                  stop_reply = '''', now = 1700000000\<rparr>"

definition ex_pr :: PullReqState where
  "ex_pr = new_PullReqState 7 ''deadbeefcafebabe'' '''' ''repo'' ''o'' ''n''"

text \<open>The four pull requests of the ordering scenario.\<close>

definition pr10 :: PullReqState where
  "pr10 = (new_PullReqState 10 ''aaaa'' ''pending'' ''repo'' ''o'' ''n'')\<lparr>approved_by := ''a''\<rparr>"

definition pr20 :: PullReqState where
  "pr20 = (new_PullReqState 20 ''bbbb'' '''' ''repo'' ''o'' ''n'')\<lparr>approved_by := ''a''\<rparr>"

definition pr15 :: PullReqState where
  "pr15 = (new_PullReqState 15 ''cccc'' '''' ''repo'' ''o'' ''n'')
            \<lparr>approved_by := ''a'', rollup := True\<rparr>"

definition pr30 :: PullReqState where
  "pr30 = (new_PullReqState 30 ''dddd'' '''' ''repo'' ''o'' ''n'')\<lparr>priority := 5\<rparr>"

text \<open>The same platform when the merge request succeeds.\<close>

definition ex_platform_ok :: platform where
  "ex_platform_ok = ex_platform\<lparr>merge_result := MergeCommit ''9999999999''\<rparr>"

text \<open>
  The variables of the parser's loop at the word \<open>r+\<close> of \<open>@bot r+ thanks\<close> and at the
  word \<open>r=alice\<close> of \<open>@bot r=alice deadbeee\<close>, on the pull request of the examples.
\<close>

definition ex_ps :: parse_state where
  "ex_ps = \<lparr>ps_words = [''@bot'', ''r+'', ''thanks''], ps_state = ex_pr, ps_world = ex_world,
            ps_changed = False\<rparr>"

definition ex_ps_sha :: parse_state where
  "ex_ps_sha = \<lparr>ps_words = [''@bot'', ''r=alice'', ''deadbeee''], ps_state = ex_pr,
                ps_world = ex_world, ps_changed = False\<rparr>"






text \<open>
  The net effect of the commands that work outside realtime mode, used to reason about
  whole comments: some of the three fields \<open>approved_by\<close>, \<open>priority\<close> and \<open>rollup\<close> are
  assigned and the entity is saved, or nothing happens.
\<close>

definition assign ::
    "string option \<Rightarrow> int option \<Rightarrow> bool option \<Rightarrow> PullReqState \<Rightarrow> PullReqState" where
  "assign a p r s =
     s\<lparr>approved_by := (case a of None \<Rightarrow> approved_by s | Some v \<Rightarrow> v),
       priority := (case p of None \<Rightarrow> priority s | Some v \<Rightarrow> v),
       rollup := (case r of None \<Rightarrow> rollup s | Some v \<Rightarrow> v)\<rparr>"

definition settle ::
    "(string option \<times> int option \<times> bool option) option \<Rightarrow> PullReqState \<times> world
      \<Rightarrow> PullReqState \<times> world" where
  "settle e sw =
     (case e of
        None \<Rightarrow> sw
      | Some (a, p, r) \<Rightarrow> (assign a p r (fst sw), save (assign a p r (fst sw)) (snd sw)))"

section \<open>The ordering key\<close>

lemma insort_lt_insort_key: "insort_lt x ys = insort_key sort_key_pr x ys"
  by (induction ys) (auto simp: lt_def)

lemma sorted_states_sort_key: "sorted_states xs = sort_key sort_key_pr xs"
  unfolding sorted_states_def sort_key_def
  by (induction xs) (simp_all add: insort_lt_insort_key)

lemma status_to_priority_values:
  "status_to_priority ''success'' = 0" "status_to_priority ''pending'' = 1"
  "status_to_priority ''approved'' = 2" "status_to_priority '''' = 3"
  "status_to_priority ''error'' = 4" "status_to_priority ''failure'' = 5"
  by (simp_all add: status_to_priority_def STATUS_TO_PRIORITY_def)

lemma lt_lexicographic:
  "lt p q \<longleftrightarrow>
     (let k = sort_key_pr p; l = sort_key_pr q in
      k ! 0 < l ! 0 \<or> k ! 0 = l ! 0 \<and>
      (k ! 1 < l ! 1 \<or> k ! 1 = l ! 1 \<and>
      (k ! 2 < l ! 2 \<or> k ! 2 = l ! 2 \<and>
      (k ! 3 < l ! 3 \<or> k ! 3 = l ! 3 \<and>
      (k ! 4 < l ! 4 \<or> k ! 4 = l ! 4 \<and> k ! 5 < l ! 5)))))"
  by (simp add: lt_def sort_key_pr_def Let_def)

text \<open>
  Claim C1.  The key has six components: the priority of the effective status (success 0,
  pending 1, approved 2, empty 3, error 4, failure 5), 1 when the pull request is known
  to be unmergeable and 0 otherwise, 0 when approved and 1 otherwise, 1 for a rollup and
  0 otherwise, the negated priority, and the number; two pull requests compare by the
  first component that differs.  The effective status is \<open>approved\<close> when the status is
  empty, an approver is recorded and the pull request is not known to be unmergeable, and
  the status itself otherwise.  Four pull requests with the fields of the scenario, none
  of them known to be unmergeable, have the effective statuses pending, approved,
  approved and empty and the keys \<open>[1, 0, 0, 0, 0, 10]\<close>, \<open>[2, 0, 0, 0, 0, 20]\<close>,
  \<open>[2, 0, 0, 1, 0, 15]\<close> and \<open>[3, 0, 1, 0, -5, 30]\<close>; given in any order, they are
  sorted into the order 10, 20, 15, 30.
\<close>

theorem sort_key_ordering:
  assumes a: "status a = ''pending''" "approved_by a = ''a''" "\<not> rollup a" "priority a = 0"
      "num a = 10" "mergeable a \<noteq> Some False"
    and b: "status b = ''''" "approved_by b = ''a''" "\<not> rollup b" "priority b = 0"
      "num b = 20" "mergeable b \<noteq> Some False"
    and c: "status c = ''''" "approved_by c = ''a''" "rollup c" "priority c = 0"
      "num c = 15" "mergeable c \<noteq> Some False"
    and d: "status d = ''''" "approved_by d = ''''" "\<not> rollup d" "priority d = 5"
      "num d = 30" "mergeable d \<noteq> Some False"
    and xs: "mset xs = {#a, b, c, d#}"
  shows "map status_to_priority
           [''success'', ''pending'', ''approved'', '''', ''error'', ''failure'']
           = [0, 1, 2, 3, 4, 5]
       \<and> sort_key_pr p ! 0 = status_to_priority (get_status p)
       \<and> sort_key_pr p ! 1 = (if mergeable p = Some False then 1 else 0)
       \<and> sort_key_pr p ! 2 = (if approved_by p \<noteq> '''' then 0 else 1)
       \<and> sort_key_pr p ! 3 = (if rollup p then 1 else 0)
       \<and> sort_key_pr p ! 4 = - priority p
       \<and> sort_key_pr p ! 5 = num p
       \<and> length (sort_key_pr p) = 6
       \<and> (lt p q \<longleftrightarrow>
           (let k = sort_key_pr p; l = sort_key_pr q in
            k ! 0 < l ! 0 \<or> k ! 0 = l ! 0 \<and>
            (k ! 1 < l ! 1 \<or> k ! 1 = l ! 1 \<and>
            (k ! 2 < l ! 2 \<or> k ! 2 = l ! 2 \<and>
            (k ! 3 < l ! 3 \<or> k ! 3 = l ! 3 \<and>
            (k ! 4 < l ! 4 \<or> k ! 4 = l ! 4 \<and> k ! 5 < l ! 5))))))
       \<and> sorted_states xs = [a, b, c, d]
       \<and> map num (sorted_states xs) = [10, 20, 15, 30]
       \<and> get_status p =
           (if status p = '''' \<and> approved_by p \<noteq> '''' \<and> mergeable p \<noteq> Some False
            then ''approved'' else status p)
       \<and> map get_status [a, b, c, d] = [''pending'', ''approved'', ''approved'', '''']
       \<and> sort_key_pr a = [1, 0, 0, 0, 0, 10]
       \<and> sort_key_pr b = [2, 0, 0, 0, 0, 20]
       \<and> sort_key_pr c = [2, 0, 0, 1, 0, 15]
       \<and> sort_key_pr d = [3, 0, 1, 0, - 5, 30]"
proof -
  have gs: "get_status a = ''pending''" "get_status b = ''approved''"
    "get_status c = ''approved''" "get_status d = ''''"
    using a b c d by (simp_all add: get_status_def)
  have ka: "sort_key_pr a = [1, 0, 0, 0, 0, 10]"
    using a gs by (simp add: sort_key_pr_def status_to_priority_values)
  have kb: "sort_key_pr b = [2, 0, 0, 0, 0, 20]"
    using b gs by (simp add: sort_key_pr_def status_to_priority_values)
  have kc: "sort_key_pr c = [2, 0, 0, 1, 0, 15]"
    using c gs by (simp add: sort_key_pr_def status_to_priority_values)
  have kd: "sort_key_pr d = [3, 0, 1, 0, - 5, 30]"
    using d gs by (simp add: sort_key_pr_def status_to_priority_values)
  have set: "set xs = {a, b, c, d}"
    using mset_eq_setD [of xs "[a, b, c, d]"] xs by simp
  have inj: "inj_on sort_key_pr (set xs)"
    unfolding set inj_on_def using ka kb kc kd by auto
  have srt: "sorted (map sort_key_pr [a, b, c, d])"
    by (simp add: ka kb kc kd)
  have "sort_key sort_key_pr xs = [a, b, c, d]"
    using sort_key_inj_key_eq [of xs "[a, b, c, d]" sort_key_pr] xs inj srt by simp
  then have order: "sorted_states xs = [a, b, c, d]"
    by (simp add: sorted_states_sort_key)
  have comps: "sort_key_pr p ! 0 = status_to_priority (get_status p)
       \<and> sort_key_pr p ! 1 = (if mergeable p = Some False then 1 else 0)
       \<and> sort_key_pr p ! 2 = (if approved_by p \<noteq> '''' then 0 else 1)
       \<and> sort_key_pr p ! 3 = (if rollup p then 1 else 0)
       \<and> sort_key_pr p ! 4 = - priority p
       \<and> sort_key_pr p ! 5 = num p
       \<and> length (sort_key_pr p) = 6"
    by (simp add: sort_key_pr_def)
  have eff: "get_status p =
           (if status p = '''' \<and> approved_by p \<noteq> '''' \<and> mergeable p \<noteq> Some False
            then ''approved'' else status p)"
    by (simp add: get_status_def)
  have first: "map status_to_priority
           [''success'', ''pending'', ''approved'', '''', ''error'', ''failure'']
           = [0, 1, 2, 3, 4, 5]
       \<and> sorted_states xs = [a, b, c, d]
       \<and> map num (sorted_states xs) = [10, 20, 15, 30]
       \<and> map get_status [a, b, c, d] = [''pending'', ''approved'', ''approved'', '''']"
    using order gs a b c d by (simp add: status_to_priority_values)
  show ?thesis
    using first comps lt_lexicographic [of p q] eff ka kb kc kd by blast
qed

theorem sort_key_ordering_witness:
  "mset [pr30, pr15, pr20, pr10] = {#pr10, pr20, pr15, pr30#}
   \<and> sorted_states [pr30, pr15, pr20, pr10] = [pr10, pr20, pr15, pr30]
   \<and> map num (sorted_states [pr30, pr15, pr20, pr10]) = [10, 20, 15, 30]
   \<and> map get_status [pr10, pr20, pr15, pr30] = [''pending'', ''approved'', ''approved'', '''']
   \<and> sort_key_pr pr10 = [1, 0, 0, 0, 0, 10]
   \<and> sort_key_pr pr20 = [2, 0, 0, 0, 0, 20]
   \<and> sort_key_pr pr15 = [2, 0, 0, 1, 0, 15]
   \<and> sort_key_pr pr30 = [3, 0, 1, 0, - 5, 30]"
  using sort_key_ordering [of pr10 pr20 pr15 pr30 "[pr30, pr15, pr20, pr10]"]
  by (simp add: pr10_def pr20_def pr15_def pr30_def new_PullReqState_def)

section \<open>The store operations of the entity\<close>

text \<open>
  Claim C7.  \<open>set_status\<close> sets the status of the entity and the status column of every
  row of \<open>pull\<close> with the repository and number of the pull request; on those rows the
  column \<open>merge_sha\<close> receives the merge commit of the entity when \<open>try_\<close> is false and
  keeps its value when \<open>try_\<close> is true.  All other rows, the other tables, the events
  and the probe queue are as before.
\<close>

theorem set_status_persists:
  "status (fst (set_status s x w)) = x
   \<and> fst (set_status s x w) = s\<lparr>status := x\<rparr>
   \<and> pull_tbl (snd (set_status s x w)) =
       map (\<lambda>r. if p_repo r = repo_label s \<and> p_num r = num s
                 then r\<lparr>p_status := x,
                        p_merge_sha := (if try_mode s then p_merge_sha r else merge_sha s)\<rparr>
                 else r) (pull_tbl w)
   \<and> map p_merge_sha (pull_tbl (snd (set_status s x w))) =
       (if try_mode s then map p_merge_sha (pull_tbl w)
        else map (\<lambda>r. if p_repo r = repo_label s \<and> p_num r = num s then merge_sha s
                       else p_merge_sha r) (pull_tbl w))
   \<and> build_res_tbl (snd (set_status s x w)) = build_res_tbl w
   \<and> mergeable_tbl (snd (set_status s x w)) = mergeable_tbl w
   \<and> events (snd (set_status s x w)) = events w
   \<and> mergeable_que (snd (set_status s x w)) = mergeable_que w"
  by (simp add: set_status_def Let_def is_pull_def comp_def)

theorem set_status_persists_witness:
  "pull_tbl (snd (set_status (ex_pr\<lparr>try_mode := True, merge_sha := ''abcd''\<rparr>) ''pending''
       (save ex_pr ex_world))) = [(row_of ex_pr)\<lparr>p_status := ''pending''\<rparr>]
   \<and> pull_tbl (snd (set_status (ex_pr\<lparr>merge_sha := ''abcd''\<rparr>) ''pending''
       (save ex_pr ex_world))) = [(row_of ex_pr)\<lparr>p_status := ''pending'', p_merge_sha := ''abcd''\<rparr>]"
  using set_status_persists [of "ex_pr\<lparr>try_mode := True, merge_sha := ''abcd''\<rparr>" "''pending''"
      "save ex_pr ex_world"]
    set_status_persists [of "ex_pr\<lparr>merge_sha := ''abcd''\<rparr>" "''pending''" "save ex_pr ex_world"]
  by (simp add: ex_pr_def ex_world_def save_def row_of_def new_PullReqState_def is_pull_def)

text \<open>
  Claim C10.  \<open>set_build_res\<close> with a builder that is not a key of \<open>build_res\<close> raises
  the exception \<open>Invalid builder\<close>, and the entity (with its \<open>build_res\<close>) and the
  world (with the table \<open>build_res\<close>) are what they were before the call.
\<close>

theorem set_build_res_invalid_builder:
  assumes "builder \<notin> fst ` set (build_res s)"
  shows "set_build_res s builder res url w
           = (Some (Exception (''Invalid builder: '' @ builder)), s, w)"
  using assms by (simp add: set_build_res_def)

theorem set_build_res_invalid_builder_witness:
  "''linux'' \<notin> fst ` set (build_res ex_pr)
   \<and> set_build_res ex_pr ''linux'' (Some True) ''http://ci/1'' ex_world
       = (Some (Exception ''Invalid builder: linux''), ex_pr, ex_world)"
  using set_build_res_invalid_builder [of "''linux''" ex_pr "Some True" "''http://ci/1''" ex_world]
  by (simp add: ex_pr_def new_PullReqState_def)

section \<open>Authorisation of a comment\<close>

text \<open>
  Claim C8.  When the author is not in the list of reviewers of the repository and is not
  the bot itself, \<open>parse_commands\<close> returns \<open>False\<close> and gives back the entity and the
  world (the three tables, the events and the probe queue) unchanged, whatever the body.
\<close>

theorem parse_commands_unauthorized:
  assumes "username \<notin> set (reviewers cfg)" and "username \<noteq> my_username"
  shows "parse_commands body_text username cfg s my_username realtime sha pf w
           = (Inr False, s, w)"
  using assms by (simp add: parse_commands_def)

theorem parse_commands_unauthorized_witness:
  "''mallory'' \<notin> set (reviewers ex_cfg) \<and> ''mallory'' \<noteq> ''bot''
   \<and> parse_commands ''@bot r+ p=100 retry'' ''mallory'' ex_cfg ex_pr ''bot'' True
         ''deadbeefcafebabe'' ex_platform ex_world
       = (Inr False, ex_pr, ex_world)"
  using parse_commands_unauthorized [of "''mallory''" ex_cfg "''bot''" "''@bot r+ p=100 retry''"
      ex_pr True "''deadbeefcafebabe''" ex_platform ex_world]
  by (simp add: ex_cfg_def)

section \<open>The build dispatcher\<close>

lemma create_merge_conflict:
  assumes "merge_result pf = MergeError 409"
  shows "create_merge s br pf w =
     (Inr None, (refresh s pf)\<lparr>status := ''error''\<rparr>,
      (snd (set_status (refresh s pf) ''error'' w))\<lparr>events := events w @
         [SetRef (''heads/'' @ br) (base_sha pf) True,
          MergeRequest br (head_sha s)
            (''Auto merge of #'' @ str_of_int (num s) @ '' - '' @ head_ref s
              @ '', r='' @ (if try_mode s then ''<try>'' else approved_by s)
              @ [CHR 0x0A, CHR 0x0A] @ issue_title pf @ [CHR 0x0A, CHR 0x0A] @ issue_body pf),
          CreateStatus (head_sha s) ''error'' ''Merge conflict'' ''homu'',
          Comment (repo_label s) (num s) '':lock: Merge conflict'']\<rparr>)"
  using assms
  by (simp add: create_merge_def Let_def refresh_def set_status_def add_comment_def)

lemma create_merge_other_error:
  assumes "merge_result pf = MergeError code" "code \<noteq> 409"
  shows "fst (create_merge s br pf w) = Inl (GitHubError code)"
  using assms by (simp add: create_merge_def Let_def)

text \<open>
  The claim C3 fails on the code: the test of the slot is the first statement of
  \<open>start_build\<close> and does not look at the configuration.  For the repository of the
  examples, which reports through \<open>travis\<close> and has no \<open>buildbot\<close> block, an occupied
  slot makes \<open>start_build\<close> return \<open>True\<close> with no merge requested, no event and the
  pull request as it was, while with an empty slot the same call starts the build.
\<close>

theorem start_build_slot_counterexample:
  "buildbot ex_cfg = None \<and> travis ex_cfg
   \<and> start_build ex_pr [(''repo'', ex_cfg)] ''abc'' ex_platform_ok ex_world
       = (Inr True, ex_pr, ''abc'', ex_world)
   \<and> status ex_pr = '''' \<and> merge_sha ex_pr = '''' \<and> events ex_world = []
   \<and> status (fst (snd (start_build ex_pr [(''repo'', ex_cfg)] '''' ex_platform_ok ex_world)))
       = ''pending''"
  by code_simp

text \<open>
  Claim C3, amended.  Whenever the slot is occupied, \<open>start_build\<close> returns \<open>True\<close> at
  once and leaves the pull request, the slot and the world untouched, whatever CI the
  repository uses.  A repository without a \<open>buildbot\<close> block never writes the slot: the
  slot after the call is the slot before it.
\<close>

theorem start_build_slot_gate:
  "(slot \<noteq> '''' \<longrightarrow> start_build s repo_cfgs slot pf w = (Inr True, s, slot, w))
   \<and> (map_of repo_cfgs (repo_label s) = Some cfg \<and> buildbot cfg = None \<longrightarrow>
        fst (snd (snd (start_build s repo_cfgs slot pf w))) = slot)"
  unfolding start_build_def
  by (auto simp: Let_def split: sum.splits option.splits prod.splits)

theorem start_build_slot_gate_witness:
  "start_build ex_pr [(''repo'', ex_cfg)] ''abc'' ex_platform_ok ex_world
     = (Inr True, ex_pr, ''abc'', ex_world)
   \<and> map_of [(''repo'', ex_cfg)] (repo_label ex_pr) = Some ex_cfg \<and> buildbot ex_cfg = None
   \<and> fst (snd (snd (start_build ex_pr [(''repo'', ex_cfg)] '''' ex_platform_ok ex_world))) = ''''"
  using start_build_slot_gate [of "''abc''" ex_pr "[(''repo'', ex_cfg)]" ex_platform_ok ex_world ex_cfg]
    start_build_slot_gate [of "''''" ex_pr "[(''repo'', ex_cfg)]" ex_platform_ok ex_world ex_cfg]
  by (simp add: ex_pr_def new_PullReqState_def ex_cfg_def)

text \<open>
  Claim C4.  Let the slot be empty, the recorded head be the head the platform reports,
  and the configuration of the repository have a CI block.  If the merge request fails
  with code 409, \<open>start_build\<close> returns \<open>False\<close>; the pull request is the refreshed one
  with status \<open>error\<close>; after the ref update and the merge request, the events are an
  error status check with description \<open>Merge conflict\<close> and context \<open>homu\<close> and the
  comment \<open>:lock: Merge conflict\<close>; the store is the one \<open>set_status\<close> leaves; the slot
  is still empty.  If the merge request fails with any other code, \<open>start_build\<close>
  raises that \<open>GitHubError\<close>.
\<close>

theorem start_build_merge_conflict:
  assumes head: "head_sha s = pr_head_sha pf"
    and cfg: "map_of repo_cfgs (repo_label s) = Some cfg"
    and ci: "branch_and_builders cfg s = Inr (br, builders)"
  shows "(merge_result pf = MergeError 409 \<longrightarrow>
           start_build s repo_cfgs '''' pf w =
             (Inr False, (refresh s pf)\<lparr>status := ''error''\<rparr>, '''',
              (snd (set_status (refresh s pf) ''error'' w))\<lparr>events := events w @
                 [SetRef (''heads/'' @ br) (base_sha pf) True,
                  MergeRequest br (head_sha s)
                    (''Auto merge of #'' @ str_of_int (num s) @ '' - '' @ head_ref s
                      @ '', r='' @ (if try_mode s then ''<try>'' else approved_by s)
                      @ [CHR 0x0A, CHR 0x0A] @ issue_title pf
                      @ [CHR 0x0A, CHR 0x0A] @ issue_body pf),
                  CreateStatus (head_sha s) ''error'' ''Merge conflict'' ''homu'',
                  Comment (repo_label s) (num s) '':lock: Merge conflict'']\<rparr>))
       \<and> (\<forall>code. merge_result pf = MergeError code \<and> code \<noteq> 409 \<longrightarrow>
             fst (start_build s repo_cfgs '''' pf w) = Inl (GitHubError code))"
proof (intro conjI impI allI)
  assume m: "merge_result pf = MergeError 409"
  show "start_build s repo_cfgs '''' pf w =
             (Inr False, (refresh s pf)\<lparr>status := ''error''\<rparr>, '''',
              (snd (set_status (refresh s pf) ''error'' w))\<lparr>events := events w @
                 [SetRef (''heads/'' @ br) (base_sha pf) True,
                  MergeRequest br (head_sha s)
                    (''Auto merge of #'' @ str_of_int (num s) @ '' - '' @ head_ref s
                      @ '', r='' @ (if try_mode s then ''<try>'' else approved_by s)
                      @ [CHR 0x0A, CHR 0x0A] @ issue_title pf
                      @ [CHR 0x0A, CHR 0x0A] @ issue_body pf),
                  CreateStatus (head_sha s) ''error'' ''Merge conflict'' ''homu'',
                  Comment (repo_label s) (num s) '':lock: Merge conflict'']\<rparr>)"
    unfolding start_build_def
    using head cfg ci create_merge_conflict [OF m, of s br w] by simp
next
  fix code
  assume m: "merge_result pf = MergeError code \<and> code \<noteq> 409"
  then have "fst (create_merge s br pf w) = Inl (GitHubError code)"
    using create_merge_other_error by blast
  then show "fst (start_build s repo_cfgs '''' pf w) = Inl (GitHubError code)"
    unfolding start_build_def using head cfg ci
    by (cases "create_merge s br pf w") (auto split: sum.splits option.splits)
qed

theorem start_build_merge_conflict_witness:
  "head_sha ex_pr = pr_head_sha ex_platform
   \<and> map_of [(''repo'', ex_cfg)] (repo_label ex_pr) = Some ex_cfg
   \<and> branch_and_builders ex_cfg ex_pr = Inr (''auto'', [''travis''])
   \<and> merge_result ex_platform = MergeError 409
   \<and> start_build ex_pr [(''repo'', ex_cfg)] '''' ex_platform ex_world =
       (Inr False, ex_pr\<lparr>title := ''t'', body := ''b'', status := ''error''\<rparr>, '''',
        ex_world\<lparr>events :=
          [SetRef ''heads/auto'' ''0123456789'' True,
           MergeRequest ''auto'' ''deadbeefcafebabe''
             (''Auto merge of #7 - , r='' @ [CHR 0x0A, CHR 0x0A] @ ''t''
               @ [CHR 0x0A, CHR 0x0A] @ ''b''),
           CreateStatus ''deadbeefcafebabe'' ''error'' ''Merge conflict'' ''homu'',
           Comment ''repo'' 7 '':lock: Merge conflict'']\<rparr>)
   \<and> fst (start_build ex_pr [(''repo'', ex_cfg)] ''''
            (ex_platform\<lparr>merge_result := MergeError 500\<rparr>) ex_world) = Inl (GitHubError 500)"
proof -
  have h: "head_sha ex_pr = pr_head_sha ex_platform"
    by (simp add: ex_pr_def ex_platform_def new_PullReqState_def)
  have h': "head_sha ex_pr = pr_head_sha (ex_platform\<lparr>merge_result := MergeError 500\<rparr>)"
    by (simp add: ex_pr_def ex_platform_def new_PullReqState_def)
  have c: "map_of [(''repo'', ex_cfg)] (repo_label ex_pr) = Some ex_cfg"
    by (simp add: ex_pr_def new_PullReqState_def)
  have b: "branch_and_builders ex_cfg ex_pr = Inr (''auto'', [''travis''])"
    by (simp add: branch_and_builders_def renamed_branch_def ex_cfg_def)
  have m: "merge_result ex_platform = MergeError 409"
    by (simp add: ex_platform_def)
  have n: "str_of_int 7 = ''7''"
    by code_simp
  show ?thesis
    using start_build_merge_conflict [OF h c b, of ex_world]
      start_build_merge_conflict [OF h' c b, of ex_world] h c b m n
    by (simp add: ex_pr_def ex_platform_def ex_world_def new_PullReqState_def refresh_def
        set_status_def)
qed

section \<open>Approval commands\<close>

lemma all_hex_sha_or_blank: "all_hex t \<Longrightarrow> sha_or_blank t = t"
  by (simp add: sha_or_blank_def)

lemma all_hex_nonempty: "all_hex t \<Longrightarrow> t \<noteq> ''''"
  by (auto simp: all_hex_def)

text \<open>
  The claim C2 fails on the code.  The reviewer \<open>carol\<close> writes \<open>@bot r+\<close> on the pull
  request of the examples as a top-level comment in realtime mode: \<open>parse_commands\<close>
  returns \<open>True\<close> and the pull request is as before, with nobody recorded as approver and
  nothing saved; what the call does is post the acknowledgement that carries the
  directive \<open>@bot r=carol deadbeefcafebabe\<close>.  In replay mode the same comment changes
  nothing at all.
\<close>

theorem approve_plain_counterexample:
  "''carol'' \<in> set (reviewers ex_cfg)
   \<and> parse_commands ''@bot r+'' ''carol'' ex_cfg ex_pr ''bot'' True '''' ex_platform ex_world
       = (Inr True, ex_pr, ex_world\<lparr>events := [Comment ''repo'' 7
            ('':pushpin: Commit deadbee has been approved by `carol`'' @ [CHR 0x0A, CHR 0x0A]
              @ ''<!-- @bot r=carol deadbeefcafebabe -->'')]\<rparr>)
   \<and> parse_commands ''@bot r+'' ''carol'' ex_cfg ex_pr ''bot'' False '''' ex_platform ex_world
       = (Inr True, ex_pr, ex_world)
   \<and> approved_by ex_pr = '''' \<and> pull_tbl ex_world = []"
  by code_simp

text \<open>
  Claim C2, amended.  Take the turn of the loop for a word \<open>r+\<close> that no commit id
  follows (it is the last word, or the next word is not lower-case hexadecimal).
  When the caller bound \<open>sha\<close> to a commit id that matches the head (at least four
  characters, a prefix of the head), the turn records the author of the comment as
  approver and saves the pull request.  In every other case the turn leaves the pull
  request, and with it the approver, and the store as they are.  When the caller bound a
  commit id that does not match the head, the turn posts, in realtime mode and for an
  author other than the bot, the comment \<open>:question: `sha` is not a valid commit SHA.
  Please try again with `head`.\<close>, and otherwise does nothing but mark the word as
  handled.  When the caller bound no commit id, the turn posts, in realtime mode and for
  an author other than the bot, the acknowledgement \<open>:pushpin: Commit ... has been
  approved by ...\<close> with the directive \<open>@bot r=author head\<close> in it, and otherwise does
  nothing but mark the word as handled.
\<close>

theorem approve_without_sha_argument:
  assumes nosha: "i + 1 < length (ps_words ps) \<Longrightarrow> sha_or_blank (ps_words ps ! (i + 1)) = ''''"
  shows "(sha_cmp sha (head_sha (ps_state ps)) \<longrightarrow>
            parse_word username cfg my_username realtime sha pf (i, ''r+'') ps =
              (None, ps\<lparr>ps_words := (ps_words ps)[i := ''''],
                        ps_state := (ps_state ps)\<lparr>approved_by := username\<rparr>,
                        ps_world := save ((ps_state ps)\<lparr>approved_by := username\<rparr>) (ps_world ps),
                        ps_changed := True\<rparr>))
       \<and> (sha = '''' \<and> realtime \<and> username \<noteq> my_username \<longrightarrow>
            parse_word username cfg my_username realtime sha pf (i, ''r+'') ps =
              (None, ps\<lparr>ps_words := (ps_words ps)[i := ''''],
                        ps_world := add_comment (ps_state ps)
                          ('':pushpin: Commit '' @ take 7 (head_sha (ps_state ps))
                           @ '' has been approved by `'' @ username @ ''`''
                           @ [CHR 0x0A, CHR 0x0A]
                           @ ''<!-- @'' @ my_username @ '' r='' @ username @ '' ''
                           @ head_sha (ps_state ps) @ '' -->'') (ps_world ps),
                        ps_changed := True\<rparr>))
       \<and> (sha = '''' \<and> \<not> (realtime \<and> username \<noteq> my_username) \<longrightarrow>
            parse_word username cfg my_username realtime sha pf (i, ''r+'') ps =
              (None, ps\<lparr>ps_words := (ps_words ps)[i := ''''], ps_changed := True\<rparr>))
       \<and> (sha \<noteq> '''' \<and> \<not> sha_cmp sha (head_sha (ps_state ps))
            \<and> realtime \<and> username \<noteq> my_username \<longrightarrow>
            parse_word username cfg my_username realtime sha pf (i, ''r+'') ps =
              (None, ps\<lparr>ps_words := (ps_words ps)[i := ''''],
                        ps_world := add_comment (ps_state ps)
                          ('':question: `'' @ sha @ ''` is not a valid commit SHA.''
                           @ '' Please try again with `'' @ take 7 (head_sha (ps_state ps))
                           @ ''`.'') (ps_world ps),
                        ps_changed := True\<rparr>))
       \<and> (sha \<noteq> '''' \<and> \<not> sha_cmp sha (head_sha (ps_state ps))
            \<and> \<not> (realtime \<and> username \<noteq> my_username) \<longrightarrow>
            parse_word username cfg my_username realtime sha pf (i, ''r+'') ps =
              (None, ps\<lparr>ps_words := (ps_words ps)[i := ''''], ps_changed := True\<rparr>))
       \<and> (\<not> sha_cmp sha (head_sha (ps_state ps)) \<longrightarrow>
            ps_state (snd (parse_word username cfg my_username realtime sha pf (i, ''r+'') ps))
              = ps_state ps
            \<and> pull_tbl (ps_world
                 (snd (parse_word username cfg my_username realtime sha pf (i, ''r+'') ps)))
              = pull_tbl (ps_world ps))"
proof -
  have short: "\<not> sha_cmp '''' (head_sha (ps_state ps))"
    by (simp add: sha_cmp_def)
  have bound: "sha_cmp sha (head_sha (ps_state ps)) \<Longrightarrow>
      (if sha = '''' \<and> i + 1 < length (ps_words ps)
       then sha_or_blank (ps_words ps ! (i + 1)) else sha) = sha"
    by (auto simp: sha_cmp_def)
  have hit: "parse_word username cfg my_username realtime sha pf (i, ''r+'') ps =
              (None, ps\<lparr>ps_words := (ps_words ps)[i := ''''],
                        ps_state := (ps_state ps)\<lparr>approved_by := username\<rparr>,
                        ps_world := save ((ps_state ps)\<lparr>approved_by := username\<rparr>) (ps_world ps),
                        ps_changed := True\<rparr>)"
    if "sha_cmp sha (head_sha (ps_state ps))"
    using that bound by (simp add: parse_word_def approve_def startswith_def Let_def)
  have pin: "parse_word username cfg my_username realtime sha pf (i, ''r+'') ps =
              (None, ps\<lparr>ps_words := (ps_words ps)[i := ''''],
                        ps_world := add_comment (ps_state ps)
                          ('':pushpin: Commit '' @ take 7 (head_sha (ps_state ps))
                           @ '' has been approved by `'' @ username @ ''`''
                           @ [CHR 0x0A, CHR 0x0A]
                           @ ''<!-- @'' @ my_username @ '' r='' @ username @ '' ''
                           @ head_sha (ps_state ps) @ '' -->'') (ps_world ps),
                        ps_changed := True\<rparr>)"
    if "sha = '''' \<and> realtime \<and> username \<noteq> my_username"
    using that nosha short by (auto simp: parse_word_def approve_def startswith_def Let_def)
  have quiet: "parse_word username cfg my_username realtime sha pf (i, ''r+'') ps =
              (None, ps\<lparr>ps_words := (ps_words ps)[i := ''''], ps_changed := True\<rparr>)"
    if "sha = '''' \<and> \<not> (realtime \<and> username \<noteq> my_username)"
    using that nosha short by (auto simp: parse_word_def approve_def startswith_def Let_def)
  have ask: "parse_word username cfg my_username realtime sha pf (i, ''r+'') ps =
              (None, ps\<lparr>ps_words := (ps_words ps)[i := ''''],
                        ps_world := add_comment (ps_state ps)
                          ('':question: `'' @ sha @ ''` is not a valid commit SHA.''
                           @ '' Please try again with `'' @ take 7 (head_sha (ps_state ps))
                           @ ''`.'') (ps_world ps),
                        ps_changed := True\<rparr>)"
    if "sha \<noteq> '''' \<and> \<not> sha_cmp sha (head_sha (ps_state ps))
          \<and> realtime \<and> username \<noteq> my_username"
    using that by (auto simp: parse_word_def approve_def startswith_def Let_def)
  have stale: "parse_word username cfg my_username realtime sha pf (i, ''r+'') ps =
              (None, ps\<lparr>ps_words := (ps_words ps)[i := ''''], ps_changed := True\<rparr>)"
    if "sha \<noteq> '''' \<and> \<not> sha_cmp sha (head_sha (ps_state ps))
          \<and> \<not> (realtime \<and> username \<noteq> my_username)"
    using that by (auto simp: parse_word_def approve_def startswith_def Let_def)
  have frame: "ps_state (snd (parse_word username cfg my_username realtime sha pf (i, ''r+'') ps))
              = ps_state ps
            \<and> pull_tbl (ps_world
                 (snd (parse_word username cfg my_username realtime sha pf (i, ''r+'') ps)))
              = pull_tbl (ps_world ps)"
    if miss: "\<not> sha_cmp sha (head_sha (ps_state ps))"
  proof (cases "sha = ''''")
    case True
    show ?thesis
    proof (cases "realtime \<and> username \<noteq> my_username")
      case True
      with \<open>sha = ''''\<close> show ?thesis
        using pin by (simp add: add_comment_def)
    next
      case False
      with \<open>sha = ''''\<close> show ?thesis
        using quiet by simp
    qed
  next
    case False
    show ?thesis
    proof (cases "realtime \<and> username \<noteq> my_username")
      case True
      with \<open>sha \<noteq> ''''\<close> miss show ?thesis
        using ask by (simp add: add_comment_def)
    next
      case False
      with \<open>sha \<noteq> ''''\<close> miss show ?thesis
        using stale by simp
    qed
  qed
  show ?thesis
    using hit pin quiet ask stale frame by blast
qed

theorem approve_without_sha_argument_witness:
  "sha_or_blank (ps_words ex_ps ! (1 + 1)) = ''''
   \<and> sha_cmp ''deadbeefcafebabe'' (head_sha (ps_state ex_ps))
   \<and> parse_word ''carol'' ex_cfg ''bot'' False ''deadbeefcafebabe'' ex_platform (1, ''r+'') ex_ps =
       (None, ex_ps\<lparr>ps_words := [''@bot'', '''', ''thanks''],
                    ps_state := ex_pr\<lparr>approved_by := ''carol''\<rparr>,
                    ps_world := save (ex_pr\<lparr>approved_by := ''carol''\<rparr>) ex_world,
                    ps_changed := True\<rparr>)
   \<and> parse_word ''carol'' ex_cfg ''bot'' True '''' ex_platform (1, ''r+'') ex_ps =
       (None, ex_ps\<lparr>ps_words := [''@bot'', '''', ''thanks''],
                    ps_world := add_comment ex_pr
                      ('':pushpin: Commit deadbee has been approved by `carol`''
                       @ [CHR 0x0A, CHR 0x0A] @ ''<!-- @bot r=carol deadbeefcafebabe -->'')
                      ex_world,
                    ps_changed := True\<rparr>)
   \<and> parse_word ''carol'' ex_cfg ''bot'' False '''' ex_platform (1, ''r+'') ex_ps =
       (None, ex_ps\<lparr>ps_words := [''@bot'', '''', ''thanks''], ps_changed := True\<rparr>)
   \<and> \<not> sha_cmp ''0000aaaa'' (head_sha (ps_state ex_ps))
   \<and> parse_word ''carol'' ex_cfg ''bot'' True ''0000aaaa'' ex_platform (1, ''r+'') ex_ps =
       (None, ex_ps\<lparr>ps_words := [''@bot'', '''', ''thanks''],
                    ps_world := add_comment ex_pr
                      ('':question: `0000aaaa` is not a valid commit SHA.''
                       @ '' Please try again with `deadbee`.'')
                      ex_world,
                    ps_changed := True\<rparr>)
   \<and> parse_word ''carol'' ex_cfg ''bot'' False ''0000aaaa'' ex_platform (1, ''r+'') ex_ps =
       (None, ex_ps\<lparr>ps_words := [''@bot'', '''', ''thanks''], ps_changed := True\<rparr>)
   \<and> approved_by (ps_state (snd
         (parse_word ''carol'' ex_cfg ''bot'' False ''0000aaaa'' ex_platform (1, ''r+'') ex_ps)))
       = ''''
   \<and> approved_by (fst (snd (parse_commands
         ('':pushpin: Commit deadbee has been approved by `carol`''
          @ [CHR 0x0A, CHR 0x0A] @ ''<!-- @bot r=carol deadbeefcafebabe -->'')
         ''bot'' ex_cfg ex_pr ''bot'' True '''' ex_platform ex_world))) = ''carol''"
proof -
  have blank: "sha_or_blank (ps_words ex_ps ! (1 + 1)) = ''''"
    by code_simp
  have cmp: "sha_cmp ''deadbeefcafebabe'' (head_sha (ps_state ex_ps))"
    by code_simp
  have miss: "\<not> sha_cmp ''0000aaaa'' (head_sha (ps_state ex_ps))"
    by code_simp
  have replay: "approved_by (fst (snd (parse_commands
         ('':pushpin: Commit deadbee has been approved by `carol`''
          @ [CHR 0x0A, CHR 0x0A] @ ''<!-- @bot r=carol deadbeefcafebabe -->'')
         ''bot'' ex_cfg ex_pr ''bot'' True '''' ex_platform ex_world))) = ''carol''"
    by code_simp
  have st: "ps_state ex_ps = ex_pr" "ps_world ex_ps = ex_world"
    "ps_words ex_ps = [''@bot'', ''r+'', ''thanks'']" "head_sha ex_pr = ''deadbeefcafebabe''"
    "approved_by ex_pr = ''''"
    by (simp_all add: ex_ps_def ex_pr_def new_PullReqState_def)
  show ?thesis
    using approve_without_sha_argument [of 1 ex_ps "''deadbeefcafebabe''" "''carol''" ex_cfg
        "''bot''" False ex_platform, OF blank]
      approve_without_sha_argument [of 1 ex_ps "''''" "''carol''" ex_cfg "''bot''" True
        ex_platform, OF blank]
      approve_without_sha_argument [of 1 ex_ps "''''" "''carol''" ex_cfg "''bot''" False
        ex_platform, OF blank]
      approve_without_sha_argument [of 1 ex_ps "''0000aaaa''" "''carol''" ex_cfg "''bot''" True
        ex_platform, OF blank]
      approve_without_sha_argument [of 1 ex_ps "''0000aaaa''" "''carol''" ex_cfg "''bot''" False
        ex_platform, OF blank]
      blank cmp miss replay
    by (simp add: st)
qed

text \<open>
  The claim C6 fails on the code for the very token of the scenario.  \<open>sha_or_blank\<close>
  replaces a word that is not lower-case hexadecimal by the empty string, so
  \<open>deadXXXX\<close> counts as no commit id at all: the comment \<open>@bot r=alice deadXXXX\<close> of the
  reviewer \<open>carol\<close>, in realtime mode, is answered by the acknowledgement of an approval
  by \<open>alice\<close>, and no comment with \<open>:question:\<close> is posted.
\<close>

theorem approve_non_hex_counterexample:
  "''carol'' \<in> set (reviewers ex_cfg)
   \<and> head_sha ex_pr = ''deadbeefcafebabe''
   \<and> \<not> sha_cmp ''deadXXXX'' (head_sha ex_pr)
   \<and> parse_commands ''@bot r=alice deadXXXX'' ''carol'' ex_cfg ex_pr ''bot'' True ''''
         ex_platform ex_world
       = (Inr True, ex_pr, ex_world\<lparr>events := [Comment ''repo'' 7
            ('':pushpin: Commit deadbee has been approved by `alice`'' @ [CHR 0x0A, CHR 0x0A]
              @ ''<!-- @bot r=alice deadbeefcafebabe -->'')]\<rparr>)
   \<and> \<not> contains '':question:''
         ('':pushpin: Commit deadbee has been approved by `alice`'' @ [CHR 0x0A, CHR 0x0A]
           @ ''<!-- @bot r=alice deadbeefcafebabe -->'')"
  by code_simp

text \<open>
  Claim C6, amended.  Take the turn of the loop for a word \<open>r+\<close> or \<open>r=user\<close> that
  another word follows, in realtime mode, for an author other than the bot and with no
  commit id bound by the caller.  If the next word is lower-case hexadecimal and fails
  the prefix test against the head (it is shorter than four characters or not a prefix),
  the pull request and the store stay as they are, and the comment \<open>:question: `word` is
  not a valid commit SHA. Please try again with `head`.\<close> is posted, \<open>head\<close> being the
  first seven characters of the head.  If the next word is not lower-case hexadecimal,
  it is not taken as a commit id: the turn posts the acknowledgement of the approval
  instead, again without changing the pull request.
\<close>

theorem approve_sha_argument_mismatch:
  assumes cmd: "word = ''r+'' \<or> startswith word ''r=''"
    and nxt: "i + 1 < length (ps_words ps)"
    and rt: "realtime"
    and usr: "username \<noteq> my_username"
  shows "(all_hex (ps_words ps ! (i + 1))
            \<and> \<not> sha_cmp (ps_words ps ! (i + 1)) (head_sha (ps_state ps)) \<longrightarrow>
          parse_word username cfg my_username realtime '''' pf (i, word) ps =
            (None, ps\<lparr>ps_words := (ps_words ps)[i := ''''],
                      ps_world := add_comment (ps_state ps)
                        ('':question: `'' @ ps_words ps ! (i + 1)
                         @ ''` is not a valid commit SHA.''
                         @ '' Please try again with `'' @ take 7 (head_sha (ps_state ps))
                         @ ''`.'') (ps_world ps),
                      ps_changed := True\<rparr>))
       \<and> (sha_or_blank (ps_words ps ! (i + 1)) = '''' \<longrightarrow>
          parse_word username cfg my_username realtime '''' pf (i, word) ps =
            (None, ps\<lparr>ps_words := (ps_words ps)[i := ''''],
                      ps_world := add_comment (ps_state ps)
                        ('':pushpin: Commit '' @ take 7 (head_sha (ps_state ps))
                         @ '' has been approved by `''
                         @ (if startswith word ''r='' then drop 2 word else username) @ ''`''
                         @ [CHR 0x0A, CHR 0x0A]
                         @ ''<!-- @'' @ my_username @ '' r=''
                         @ (if startswith word ''r='' then drop 2 word else username) @ '' ''
                         @ head_sha (ps_state ps) @ '' -->'') (ps_world ps),
                      ps_changed := True\<rparr>))"
proof (intro conjI impI)
  assume h: "all_hex (ps_words ps ! (i + 1))
      \<and> \<not> sha_cmp (ps_words ps ! (i + 1)) (head_sha (ps_state ps))"
  then have "sha_or_blank (ps_words ps ! Suc i) = ps_words ps ! Suc i"
    and "ps_words ps ! Suc i \<noteq> ''''"
    using all_hex_sha_or_blank all_hex_nonempty by auto
  then show "parse_word username cfg my_username realtime '''' pf (i, word) ps =
            (None, ps\<lparr>ps_words := (ps_words ps)[i := ''''],
                      ps_world := add_comment (ps_state ps)
                        ('':question: `'' @ ps_words ps ! (i + 1)
                         @ ''` is not a valid commit SHA.''
                         @ '' Please try again with `'' @ take 7 (head_sha (ps_state ps))
                         @ ''`.'') (ps_world ps),
                      ps_changed := True\<rparr>)"
    using cmd nxt rt usr h by (auto simp: parse_word_def approve_def Let_def)
next
  assume h: "sha_or_blank (ps_words ps ! (i + 1)) = ''''"
  have short: "\<not> sha_cmp '''' (head_sha (ps_state ps))"
    by (simp add: sha_cmp_def)
  show "parse_word username cfg my_username realtime '''' pf (i, word) ps =
            (None, ps\<lparr>ps_words := (ps_words ps)[i := ''''],
                      ps_world := add_comment (ps_state ps)
                        ('':pushpin: Commit '' @ take 7 (head_sha (ps_state ps))
                         @ '' has been approved by `''
                         @ (if startswith word ''r='' then drop 2 word else username) @ ''`''
                         @ [CHR 0x0A, CHR 0x0A]
                         @ ''<!-- @'' @ my_username @ '' r=''
                         @ (if startswith word ''r='' then drop 2 word else username) @ '' ''
                         @ head_sha (ps_state ps) @ '' -->'') (ps_world ps),
                      ps_changed := True\<rparr>)"
    using cmd nxt rt usr h short by (auto simp: parse_word_def approve_def Let_def)
qed

theorem approve_sha_argument_mismatch_witness:
  "startswith ''r=alice'' ''r='' \<and> 1 + 1 < length (ps_words ex_ps_sha) \<and> ''carol'' \<noteq> ''bot''
   \<and> all_hex (ps_words ex_ps_sha ! (1 + 1))
   \<and> \<not> sha_cmp (ps_words ex_ps_sha ! (1 + 1)) (head_sha (ps_state ex_ps_sha))
   \<and> parse_word ''carol'' ex_cfg ''bot'' True '''' ex_platform (1, ''r=alice'') ex_ps_sha =
       (None, ex_ps_sha\<lparr>ps_words := [''@bot'', '''', ''deadbeee''],
                        ps_world := add_comment ex_pr
                          ('':question: `deadbeee` is not a valid commit SHA.''
                           @ '' Please try again with `deadbee`.'')
                          ex_world,
                        ps_changed := True\<rparr>)
   \<and> parse_commands ''@bot r=alice deadbeee'' ''carol'' ex_cfg ex_pr ''bot'' True ''''
         ex_platform ex_world
       = (Inr True, ex_pr, ex_world\<lparr>events := [Comment ''repo'' 7
            ('':question: `deadbeee` is not a valid commit SHA.''
             @ '' Please try again with `deadbee`.'')]\<rparr>)"
proof -
  have cmd: "''r=alice'' = ''r+'' \<or> startswith ''r=alice'' ''r=''"
    by code_simp
  have nxt: "1 + 1 < length (ps_words ex_ps_sha)"
    by code_simp
  have usr: "''carol'' \<noteq> ''bot''"
    by simp
  have hex: "all_hex (ps_words ex_ps_sha ! (1 + 1))"
    by code_simp
  have cmp: "\<not> sha_cmp (ps_words ex_ps_sha ! (1 + 1)) (head_sha (ps_state ex_ps_sha))"
    by code_simp
  have whole: "parse_commands ''@bot r=alice deadbeee'' ''carol'' ex_cfg ex_pr ''bot'' True ''''
         ex_platform ex_world
       = (Inr True, ex_pr, ex_world\<lparr>events := [Comment ''repo'' 7
            ('':question: `deadbeee` is not a valid commit SHA.''
             @ '' Please try again with `deadbee`.'')]\<rparr>)"
    by code_simp
  have st: "ps_state ex_ps_sha = ex_pr" "ps_world ex_ps_sha = ex_world"
    "ps_words ex_ps_sha = [''@bot'', ''r=alice'', ''deadbeee'']"
    "head_sha ex_pr = ''deadbeefcafebabe''"
    by (simp_all add: ex_ps_sha_def ex_pr_def new_PullReqState_def)
  show ?thesis
    using approve_sha_argument_mismatch [of "''r=alice''" 1 ex_ps_sha True "''carol''" "''bot''"
        ex_cfg ex_platform, OF cmd nxt _ usr] cmd nxt usr hex cmp whole
    by (simp add: st)
qed

section \<open>Recovery\<close>









section \<open>Parsing a comment twice\<close>

lemma save_save:
  assumes "repo_label s' = repo_label s" and "num s' = num s"
  shows "save s' (save s w) = save s' w"
  using assms by (simp add: save_def is_pull_def row_of_def)

lemma settle_head_sha: "head_sha (fst (settle e sw)) = head_sha (fst sw)"
  by (cases e) (auto simp: settle_def assign_def)

lemma settle_idem: "settle e (settle e sw) = settle e sw"
proof (cases e)
  case None
  then show ?thesis by (simp add: settle_def)
next
  case (Some t)
  obtain a p r where t: "t = (a, p, r)" by (cases t)
  have 1: "assign a p r (assign a p r (fst sw)) = assign a p r (fst sw)"
    by (cases a; cases p; cases r) (simp_all add: assign_def)
  have 2: "save (assign a p r (fst sw)) (save (assign a p r (fst sw)) (snd sw))
             = save (assign a p r (fst sw)) (snd sw)"
    by (rule save_save) simp_all
  show ?thesis
    using Some t 1 2 by (simp add: settle_def)
qed

lemma settle_compose: "\<exists>e. \<forall>sw. settle e2 (settle e1 sw) = settle e sw"
proof (cases e1)
  case None
  then show ?thesis by (auto simp: settle_def)
next
  case s1: (Some t1)
  show ?thesis
  proof (cases e2)
    case None
    then show ?thesis by (auto simp: settle_def)
  next
    case s2: (Some t2)
    obtain a1 p1 r1 where t1: "t1 = (a1, p1, r1)" by (cases t1)
    obtain a2 p2 r2 where t2: "t2 = (a2, p2, r2)" by (cases t2)
    let ?a = "case a2 of None \<Rightarrow> a1 | Some v \<Rightarrow> Some v"
    let ?p = "case p2 of None \<Rightarrow> p1 | Some v \<Rightarrow> Some v"
    let ?r = "case r2 of None \<Rightarrow> r1 | Some v \<Rightarrow> Some v"
    have 1: "assign a2 p2 r2 (assign a1 p1 r1 s) = assign ?a ?p ?r s" for s
      by (cases a2; cases p2; cases r2) (simp_all add: assign_def)
    have 2: "save (assign ?a ?p ?r s) (save (assign a1 p1 r1 s) w) = save (assign ?a ?p ?r s) w"
      for s w
      by (rule save_save) (simp_all add: assign_def)
    have "\<forall>sw. settle e2 (settle e1 sw) = settle (Some (?a, ?p, ?r)) sw"
      using s1 s2 t1 t2 1 2 by (simp add: settle_def)
    then show ?thesis by blast
  qed
qed

lemma parse_word_settle:
  "\<exists>e ws' f. \<forall>s w ch. head_sha s = h \<longrightarrow>
     parse_word username cfg my_username False sha pf (i, word)
       \<lparr>ps_words = ws, ps_state = s, ps_world = w, ps_changed = ch\<rparr> =
     (None, \<lparr>ps_words = ws', ps_state = fst (settle e (s, w)),
             ps_world = snd (settle e (s, w)), ps_changed = (ch \<or> f)\<rparr>)"
proof -
  let ?cur = "if sha = '''' \<and> i + 1 < length ws then sha_or_blank (ws ! (i + 1)) else sha"
  let ?approver = "if startswith word ''r='' then drop 2 word else username"
  consider
      (approve_hit) "word = ''r+'' \<or> startswith word ''r=''" "sha_cmp ?cur h"
    | (approve_miss) "word = ''r+'' \<or> startswith word ''r=''" "\<not> sha_cmp ?cur h"
    | (revoke) "\<not> (word = ''r+'' \<or> startswith word ''r='')" "word = ''r-''"
    | (prio) "\<not> (word = ''r+'' \<or> startswith word ''r='')" "word \<noteq> ''r-''"
        "startswith word ''p=''"
    | (roll) "\<not> (word = ''r+'' \<or> startswith word ''r='')" "word \<noteq> ''r-''"
        "\<not> startswith word ''p=''" "word = ''rollup'' \<or> word = ''rollup-''"
    | (other) "\<not> (word = ''r+'' \<or> startswith word ''r='')" "word \<noteq> ''r-''"
        "\<not> startswith word ''p=''" "\<not> (word = ''rollup'' \<or> word = ''rollup-'')"
    by blast
  then show ?thesis
  proof cases
    case approve_hit
    then have "\<forall>s w ch. head_sha s = h \<longrightarrow>
       parse_word username cfg my_username False sha pf (i, word)
         \<lparr>ps_words = ws, ps_state = s, ps_world = w, ps_changed = ch\<rparr> =
       (None, \<lparr>ps_words = ws[i := ''''],
               ps_state = fst (settle (Some (Some ?approver, None, None)) (s, w)),
               ps_world = snd (settle (Some (Some ?approver, None, None)) (s, w)),
               ps_changed = (ch \<or> True)\<rparr>)"
      by (auto simp: parse_word_def approve_def settle_def assign_def Let_def)
    then show ?thesis by blast
  next
    case approve_miss
    then have "\<forall>s w ch. head_sha s = h \<longrightarrow>
       parse_word username cfg my_username False sha pf (i, word)
         \<lparr>ps_words = ws, ps_state = s, ps_world = w, ps_changed = ch\<rparr> =
       (None, \<lparr>ps_words = ws[i := ''''], ps_state = fst (settle None (s, w)),
               ps_world = snd (settle None (s, w)), ps_changed = (ch \<or> True)\<rparr>)"
      by (auto simp: parse_word_def approve_def settle_def Let_def)
    then show ?thesis by blast
  next
    case revoke
    then have "\<forall>s w ch. head_sha s = h \<longrightarrow>
       parse_word username cfg my_username False sha pf (i, word)
         \<lparr>ps_words = ws, ps_state = s, ps_world = w, ps_changed = ch\<rparr> =
       (None, \<lparr>ps_words = ws[i := ''''],
               ps_state = fst (settle (Some (Some '''', None, None)) (s, w)),
               ps_world = snd (settle (Some (Some '''', None, None)) (s, w)),
               ps_changed = (ch \<or> True)\<rparr>)"
      by (auto simp: parse_word_def settle_def assign_def Let_def startswith_def)
    then show ?thesis by blast
  next
    case prio
    then have "\<forall>s w ch. head_sha s = h \<longrightarrow>
       parse_word username cfg my_username False sha pf (i, word)
         \<lparr>ps_words = ws, ps_state = s, ps_world = w, ps_changed = ch\<rparr> =
       (None, \<lparr>ps_words = ws[i := ''''],
               ps_state = fst (settle (Some (None, py_int (drop 2 word), None)) (s, w)),
               ps_world = snd (settle (Some (None, py_int (drop 2 word), None)) (s, w)),
               ps_changed = (ch \<or> True)\<rparr>)"
      by (auto simp: parse_word_def settle_def assign_def Let_def split: option.splits)
    then show ?thesis by blast
  next
    case roll
    then have "\<forall>s w ch. head_sha s = h \<longrightarrow>
       parse_word username cfg my_username False sha pf (i, word)
         \<lparr>ps_words = ws, ps_state = s, ps_world = w, ps_changed = ch\<rparr> =
       (None, \<lparr>ps_words = ws[i := ''''],
               ps_state = fst (settle (Some (None, None, Some (word = ''rollup''))) (s, w)),
               ps_world = snd (settle (Some (None, None, Some (word = ''rollup''))) (s, w)),
               ps_changed = (ch \<or> True)\<rparr>)"
      by (auto simp: parse_word_def settle_def assign_def Let_def)
    then show ?thesis by blast
  next
    case other
    then have "\<forall>s w ch. head_sha s = h \<longrightarrow>
       parse_word username cfg my_username False sha pf (i, word)
         \<lparr>ps_words = ws, ps_state = s, ps_world = w, ps_changed = ch\<rparr> =
       (None, \<lparr>ps_words = ws, ps_state = fst (settle None (s, w)),
               ps_world = snd (settle None (s, w)), ps_changed = (ch \<or> False)\<rparr>)"
      by (auto simp: parse_word_def settle_def Let_def)
    then show ?thesis by blast
  qed
qed

lemma parse_loop_settle:
  "\<exists>e ws' f. \<forall>s w ch. head_sha s = h \<longrightarrow>
     parse_loop username cfg my_username False sha pf iws
       \<lparr>ps_words = ws, ps_state = s, ps_world = w, ps_changed = ch\<rparr> =
     (None, \<lparr>ps_words = ws', ps_state = fst (settle e (s, w)),
             ps_world = snd (settle e (s, w)), ps_changed = (ch \<or> f)\<rparr>)"
proof (induction iws arbitrary: ws)
  case Nil
  have "\<forall>s w ch. head_sha s = h \<longrightarrow>
     parse_loop username cfg my_username False sha pf []
       \<lparr>ps_words = ws, ps_state = s, ps_world = w, ps_changed = ch\<rparr> =
     (None, \<lparr>ps_words = ws, ps_state = fst (settle None (s, w)),
             ps_world = snd (settle None (s, w)), ps_changed = (ch \<or> False)\<rparr>)"
    by (simp add: settle_def)
  then show ?case by blast
next
  case (Cons iw rest)
  obtain i word where iw: "iw = (i, word)" by (cases iw)
  obtain e1 ws1 f1 where step: "\<And>s w ch. head_sha s = h \<Longrightarrow>
     parse_word username cfg my_username False sha pf (i, word)
       \<lparr>ps_words = ws, ps_state = s, ps_world = w, ps_changed = ch\<rparr> =
     (None, \<lparr>ps_words = ws1, ps_state = fst (settle e1 (s, w)),
             ps_world = snd (settle e1 (s, w)), ps_changed = (ch \<or> f1)\<rparr>)"
    using parse_word_settle [of h username cfg my_username sha pf i word ws] by blast
  obtain e2 ws2 f2 where rest: "\<And>s w ch. head_sha s = h \<Longrightarrow>
     parse_loop username cfg my_username False sha pf rest
       \<lparr>ps_words = ws1, ps_state = s, ps_world = w, ps_changed = ch\<rparr> =
     (None, \<lparr>ps_words = ws2, ps_state = fst (settle e2 (s, w)),
             ps_world = snd (settle e2 (s, w)), ps_changed = (ch \<or> f2)\<rparr>)"
    using Cons.IH [of ws1] by blast
  obtain e where e: "\<And>sw. settle e2 (settle e1 sw) = settle e sw"
    using settle_compose [of e2 e1] by blast
  have "parse_loop username cfg my_username False sha pf (iw # rest)
       \<lparr>ps_words = ws, ps_state = s, ps_world = w, ps_changed = ch\<rparr> =
     (None, \<lparr>ps_words = ws2, ps_state = fst (settle e (s, w)),
             ps_world = snd (settle e (s, w)), ps_changed = (ch \<or> (f1 \<or> f2))\<rparr>)"
    if h: "head_sha s = h" for s w ch
  proof -
    have h1: "head_sha (fst (settle e1 (s, w))) = h"
      using h by (simp add: settle_head_sha)
    show ?thesis
      using step [OF h, of w ch] rest [OF h1, of "snd (settle e1 (s, w))" "ch \<or> f1"] e [of "(s, w)"]
      by (simp add: iw)
  qed
  then show ?case by blast
qed

text \<open>
  Claim C9.  Outside realtime mode \<open>parse_commands\<close> raises no exception, and parsing
  the same comment again, on the entity and the world that the first parse left, gives
  back the same flag, the same entity and the same world (the three tables, the events
  and the probe queue).  This holds for every author, body and bound commit id.
\<close>

theorem parse_commands_twice:
  "(\<exists>flag. fst (parse_commands body_text username cfg s my_username False sha pf w) = Inr flag)
   \<and> parse_commands body_text username cfg
        (fst (snd (parse_commands body_text username cfg s my_username False sha pf w)))
        my_username False sha pf
        (snd (snd (parse_commands body_text username cfg s my_username False sha pf w)))
      = parse_commands body_text username cfg s my_username False sha pf w"
proof (cases "username \<notin> set (reviewers cfg) \<and> username \<noteq> my_username")
  case True
  then show ?thesis by (auto simp: parse_commands_def)
next
  case False
  let ?ws = "mention_words my_username body_text"
  obtain e ws' f where run: "\<And>s' w' ch. head_sha s' = head_sha s \<Longrightarrow>
     parse_loop username cfg my_username False sha pf (rev (enumerate 0 ?ws))
       \<lparr>ps_words = ?ws, ps_state = s', ps_world = w', ps_changed = ch\<rparr> =
     (None, \<lparr>ps_words = ws', ps_state = fst (settle e (s', w')),
             ps_world = snd (settle e (s', w')), ps_changed = (ch \<or> f)\<rparr>)"
    using parse_loop_settle [of "head_sha s" username cfg my_username sha pf
        "rev (enumerate 0 ?ws)" ?ws] by blast
  have once: "parse_commands body_text username cfg s' my_username False sha pf w'
                = (Inr f, settle e (s', w'))"
    if "head_sha s' = head_sha s" for s' w'
    using False run [OF that, of w' False] by (auto simp: parse_commands_def)
  have first: "parse_commands body_text username cfg s my_username False sha pf w
                = (Inr f, settle e (s, w))"
    using once [of s w] by simp
  have "parse_commands body_text username cfg (fst (settle e (s, w))) my_username False sha pf
          (snd (settle e (s, w))) = (Inr f, settle e (settle e (s, w)))"
    using once [of "fst (settle e (s, w))" "snd (settle e (s, w))"]
    by (simp add: settle_head_sha)
  then show ?thesis
    using first by (simp add: settle_idem)
qed

theorem parse_commands_twice_witness:
  "''carol'' \<in> set (reviewers ex_cfg)
   \<and> parse_commands ''@bot r=alice deadbeef p=5 rollup retry'' ''carol'' ex_cfg ex_pr ''bot''
        False '''' ex_platform ex_world
      = (Inr True, ex_pr\<lparr>approved_by := ''alice'', priority := 5, rollup := True\<rparr>,
         ex_world\<lparr>pull_tbl :=
           [row_of (ex_pr\<lparr>approved_by := ''alice'', priority := 5, rollup := True\<rparr>)]\<rparr>)
   \<and> parse_commands ''@bot r=alice deadbeef p=5 rollup retry'' ''carol'' ex_cfg
        (ex_pr\<lparr>approved_by := ''alice'', priority := 5, rollup := True\<rparr>) ''bot'' False ''''
        ex_platform
        (ex_world\<lparr>pull_tbl :=
           [row_of (ex_pr\<lparr>approved_by := ''alice'', priority := 5, rollup := True\<rparr>)]\<rparr>)
      = (Inr True, ex_pr\<lparr>approved_by := ''alice'', priority := 5, rollup := True\<rparr>,
         ex_world\<lparr>pull_tbl :=
           [row_of (ex_pr\<lparr>approved_by := ''alice'', priority := 5, rollup := True\<rparr>)]\<rparr>)"
proof -
  have auth: "''carol'' \<in> set (reviewers ex_cfg)"
    by (simp add: ex_cfg_def)
  have one: "parse_commands ''@bot r=alice deadbeef p=5 rollup retry'' ''carol'' ex_cfg ex_pr
        ''bot'' False '''' ex_platform ex_world
      = (Inr True, ex_pr\<lparr>approved_by := ''alice'', priority := 5, rollup := True\<rparr>,
         ex_world\<lparr>pull_tbl :=
           [row_of (ex_pr\<lparr>approved_by := ''alice'', priority := 5, rollup := True\<rparr>)]\<rparr>)"
    by code_simp
  show ?thesis
    using parse_commands_twice [of "''@bot r=alice deadbeef p=5 rollup retry''" "''carol''"
        ex_cfg ex_pr "''bot''" "''''" ex_platform ex_world] auth one
    by simp
qed

end
